theory Spec2Isabelle
  imports Main "HOL-Library.AList"
begin

section \<open>The asynchronous report job of the Facebook Marketing source\<close>

text \<open>
  A shallow embedding of \<^verbatim>\<open>source_facebook_marketing/streams/async_job.py\<close>.
  The Python object is a record that every method takes and returns; an exception is the
  left summand of the result. The remote service is a parameter: a record of functions
  from the number of remote calls made so far to the reply of the next one, so that the
  service may answer differently each time it is asked, and the number of calls made is
  part of the state.
\<close>

subsection \<open>Errors, mappings, statuses\<close>

text \<open>
  Every \<^verbatim>\<open>RuntimeError\<close> of the module is a usage error; the tag says which of the four
  messages it carries.
\<close>

datatype usage =
    AlreadyStarted
  | OnlyFailedRestart
  | NotStarted
  | NotStartedOrFailed

datatype error =
    RuntimeError usage
  | KeyError
  | TypeError
  | AttributeError
  | FacebookRequestError
  | FacebookBadObjectError

text \<open>A Python mapping with string keys, in insertion order; \<^verbatim>\<open>m[k]\<close> raises on a missing key.\<close>

type_synonym fields = "(string \<times> string) list"

definition getitem :: "fields \<Rightarrow> string \<Rightarrow> error + string" where
  "getitem m k = (case map_of m k of None \<Rightarrow> Inl KeyError | Some v \<Rightarrow> Inr v)"

datatype Status = COMPLETED | FAILED | SKIPPED | STARTED | RUNNING | NOT_STARTED

text \<open>\<^verbatim>\<open>Status\<close> is a \<^verbatim>\<open>str\<close> enumeration: a member compares equal to its string value.\<close>

fun status_value :: "Status \<Rightarrow> string" where
  "status_value COMPLETED = ''Job Completed''"
| "status_value FAILED = ''Job Failed''"
| "status_value SKIPPED = ''Job Skipped''"
| "status_value STARTED = ''Job Started''"
| "status_value RUNNING = ''Job Running''"
| "status_value NOT_STARTED = ''Job Not Started''"

subsection \<open>The job and the remote service\<close>

text \<open>
  The fields of \<^verbatim>\<open>AsyncJob\<close>, but for \<^verbatim>\<open>_api\<close>, which is set once and is a parameter
  of the methods here. The handle \<open>job\<close> is the \<^verbatim>\<open>AdReportRun\<close> object of the Facebook
  SDK, kept as the mapping of its fields. A handle that the service returned is taken to
  be truthy, so \<^verbatim>\<open>if self._job\<close> is the test against \<open>None\<close>; so are the tests of the
  two timestamps. Times are seconds on the wall clock.

  \<open>observed\<close> is a history variable, not a field of the Python object: the status that
  \<^verbatim>\<open>_check_status\<close> last read from the handle of the current remote run. It is written
  where line 126 reads \<^verbatim>\<open>async_status\<close> and cleared where \<^verbatim>\<open>restart\<close> discards the
  handle. No branch of the program reads it.
\<close>

record AsyncJob =
  params :: fields
  job :: "fields option"
  start_time :: "int option"
  finish_time :: "int option"
  failed :: bool
  observed :: "string option"

definition init :: "fields \<Rightarrow> AsyncJob" where
  "init p = \<lparr>params = p, job = None, start_time = None, finish_time = None,
             failed = False, observed = None\<rparr>"

text \<open>
  The three blocking calls of the SDK: \<^verbatim>\<open>account.get_insights(params, is_async=True)\<close>,
  \<^verbatim>\<open>AdReportRun.api_get()\<close> and \<^verbatim>\<open>AdReportRun.get_result()\<close>. The first argument is the
  number of remote calls made before this one. \<open>None\<close> is the call raising
  \<^verbatim>\<open>FacebookRequestError\<close>, the one failure of a remote call that is modelled.
\<close>

record API =
  get_insights :: "nat \<Rightarrow> fields \<Rightarrow> fields option"
  api_get :: "nat \<Rightarrow> fields \<Rightarrow> fields option"
  job_get_result :: "nat \<Rightarrow> fields \<Rightarrow> string option"

text \<open>The outcome of a method: what it returned or raised, the job, the remote calls made.\<close>

type_synonym 'a outcome = "(error + 'a) \<times> AsyncJob \<times> nat"

subsection \<open>The retry policy\<close>

text \<open>
  Modelled from the spec: \<^verbatim>\<open>retry_pattern\<close> of \<^verbatim>\<open>streams/common.py\<close>, which builds the
  decorator \<^verbatim>\<open>backoff_policy\<close> of line 19, is not among the sources. The spec: on the
  designated transient error class the call is retried, with a capped attempt count;
  when the attempts are exhausted the error propagates to the caller. Line 19 designates
  \<^verbatim>\<open>FacebookRequestError\<close> and caps the attempts at five. The delays between attempts
  are not modelled. \<open>retry k f\<close> runs \<open>f\<close> and, while it raises the designated error, runs
  it again on the job as the failed attempt left it, at most \<open>k\<close> more times.
\<close>

definition max_tries :: nat where
  "max_tries = 5"

fun retry :: "nat \<Rightarrow> (AsyncJob \<Rightarrow> nat \<Rightarrow> 'a outcome) \<Rightarrow> AsyncJob \<Rightarrow> nat \<Rightarrow> 'a outcome" where
  "retry 0 f s n = f s n"
| "retry (Suc k) f s n =
     (let r = f s n
      in if fst r = Inl FacebookRequestError then retry k f (fst (snd r)) (snd (snd r))
         else r)"

definition backoff_policy :: "(AsyncJob \<Rightarrow> nat \<Rightarrow> 'a outcome) \<Rightarrow> AsyncJob \<Rightarrow> nat \<Rightarrow> 'a outcome" where
  "backoff_policy f = retry (max_tries - 1) f"

subsection \<open>The methods\<close>

text \<open>
  \<^verbatim>\<open>__str__\<close> (line 146): it reads the run identifier of the handle, when there is one,
  and two keys of the parameters, and raises on a missing key.
\<close>

definition str_AsyncJob :: "AsyncJob \<Rightarrow> error + string" where
  "str_AsyncJob s =
     (case (case job s of None \<Rightarrow> Inr ''<None>'' | Some h \<Rightarrow> getitem h ''report_run_id'') of
        Inl e \<Rightarrow> Inl e
      | Inr job_id \<Rightarrow>
     (case getitem (params s) ''time_range'' of
        Inl e \<Rightarrow> Inl e
      | Inr time_range \<Rightarrow>
     (case getitem (params s) ''breakdowns'' of
        Inl e \<Rightarrow> Inl e
      | Inr breakdowns \<Rightarrow>
          Inr (''AdReportRun(id='' @ job_id @ '', time_range='' @ time_range
               @ '', breakdowns='' @ breakdowns))))"

text \<open>
  \<^verbatim>\<open>raise RuntimeError(f"{self}: ...")\<close>: the message is formatted first, so a failing
  \<^verbatim>\<open>__str__\<close> raises in place of the usage error.
\<close>

definition raise_usage :: "usage \<Rightarrow> AsyncJob \<Rightarrow> error" where
  "raise_usage u s = (case str_AsyncJob s of Inl e \<Rightarrow> e | Inr _ \<Rightarrow> RuntimeError u)"

text \<open>The body of \<^verbatim>\<open>start\<close> (line 51), one attempt; \<open>now\<close> is what \<^verbatim>\<open>pendulum.now()\<close> returns.\<close>

definition start_body :: "API \<Rightarrow> int \<Rightarrow> AsyncJob \<Rightarrow> nat \<Rightarrow> unit outcome" where
  "start_body api now s n =
     (if job s \<noteq> None then (Inl (raise_usage AlreadyStarted s), s, n)
      else case get_insights api n (params s) of
        None \<Rightarrow> (Inl FacebookRequestError, s, Suc n)
      | Some h \<Rightarrow>
          (let s' = s\<lparr>job := Some h, start_time := Some now\<rparr>
           in case getitem h ''report_run_id'' of
                Inl e \<Rightarrow> (Inl e, s', Suc n)
              | Inr job_id \<Rightarrow>
             (case getitem (params s') ''time_range'' of
                Inl e \<Rightarrow> (Inl e, s', Suc n)
              | Inr time_range \<Rightarrow>
             (case getitem (params s') ''breakdowns'' of
                Inl e \<Rightarrow> (Inl e, s', Suc n)
              | Inr breakdowns \<Rightarrow> (Inr (), s', Suc n)))))"

definition start :: "API \<Rightarrow> int \<Rightarrow> AsyncJob \<Rightarrow> nat \<Rightarrow> unit outcome" where
  "start api now = backoff_policy (start_body api now)"

text \<open>
  The four assignments of \<^verbatim>\<open>restart\<close> (lines 68 to 71); the history variable is
  cleared with the handle it was read from.
\<close>

definition cleared :: "AsyncJob \<Rightarrow> AsyncJob" where
  "cleared s = s\<lparr>job := None, failed := False, start_time := None, finish_time := None,
                 observed := None\<rparr>"

definition restart :: "API \<Rightarrow> int \<Rightarrow> AsyncJob \<Rightarrow> nat \<Rightarrow> unit outcome" where
  "restart api now s n =
     (if job s = None \<or> \<not> failed s then (Inl (raise_usage OnlyFailedRestart s), s, n)
      else case start api now (cleared s) n of
        (Inl e, s', n') \<Rightarrow> (Inl e, s', n')
      | (Inr _, s', n') \<Rightarrow>
          (case str_AsyncJob s' of
             Inl e \<Rightarrow> (Inl e, s', n')
           | Inr _ \<Rightarrow> (Inr (), s', n')))"

text \<open>\<^verbatim>\<open>elapsed_time\<close> (line 76): \<open>None\<close> before the start.\<close>

definition elapsed_time :: "int \<Rightarrow> AsyncJob \<Rightarrow> int option" where
  "elapsed_time now s =
     (case start_time s of
        None \<Rightarrow> None
      | Some t0 \<Rightarrow> Some ((case finish_time s of Some t1 \<Rightarrow> t1 | None \<Rightarrow> now) - t0))"

text \<open>The body of \<^verbatim>\<open>_update_job\<close> (line 113), one attempt.\<close>

definition update_job_body :: "API \<Rightarrow> AsyncJob \<Rightarrow> nat \<Rightarrow> unit outcome" where
  "update_job_body api s n =
     (case job s of
        None \<Rightarrow> (Inl (raise_usage NotStarted s), s, n)
      | Some h \<Rightarrow>
          (case api_get api n h of
             None \<Rightarrow> (Inl FacebookRequestError, s, Suc n)
           | Some h' \<Rightarrow> (Inr (), s\<lparr>job := Some h'\<rparr>, Suc n)))"

definition update_job :: "API \<Rightarrow> AsyncJob \<Rightarrow> nat \<Rightarrow> unit outcome" where
  "update_job api = backoff_policy (update_job_body api)"

text \<open>
  \<^verbatim>\<open>_check_status\<close> (line 119). Subscripting \<open>None\<close> is a \<^verbatim>\<open>TypeError\<close>; the log line of
  the failure branch calls \<^verbatim>\<open>in_seconds\<close> on the elapsed time, an \<^verbatim>\<open>AttributeError\<close>
  when that is \<open>None\<close>, after the two assignments.
\<close>

definition check_status :: "int \<Rightarrow> AsyncJob \<Rightarrow> (error + bool) \<times> AsyncJob" where
  "check_status now s =
     (case job s of
        None \<Rightarrow> (Inl TypeError, s)
      | Some h \<Rightarrow>
     (case getitem h ''async_percent_completion'' of
        Inl e \<Rightarrow> (Inl e, s)
      | Inr job_progress_pct \<Rightarrow>
     (case str_AsyncJob s of
        Inl e \<Rightarrow> (Inl e, s)
      | Inr _ \<Rightarrow>
     (case getitem h ''async_status'' of
        Inl e \<Rightarrow> (Inl e, s)
      | Inr job_status \<Rightarrow>
          (let s1 = s\<lparr>observed := Some job_status\<rparr>
           in if job_status = status_value COMPLETED
              then (Inr True, s1\<lparr>finish_time := Some now\<rparr>)
              else if job_status \<in> set [status_value FAILED, status_value SKIPPED]
              then (let s2 = s1\<lparr>finish_time := Some now, failed := True\<rparr>
                    in case elapsed_time now s2 of
                         None \<Rightarrow> (Inl AttributeError, s2)
                       | Some _ \<Rightarrow> (Inr True, s2))
              else (Inr False, s1))))))"

text \<open>The property \<^verbatim>\<open>completed\<close> (line 85).\<close>

definition completed :: "API \<Rightarrow> int \<Rightarrow> AsyncJob \<Rightarrow> nat \<Rightarrow> bool outcome" where
  "completed api now s n =
     (if finish_time s \<noteq> None then (Inr True, s, n)
      else case update_job api s n of
        (Inl e, s', n') \<Rightarrow> (Inl e, s', n')
      | (Inr _, s', n') \<Rightarrow> (case check_status now s' of (r, s'') \<Rightarrow> (r, s'', n')))"

text \<open>
  Modelled from the spec: \<^verbatim>\<open>AdReportRun.api_get(pending=True)\<close> belongs to the SDK. The
  spec: it builds a deferred status-check request bound to the job's remote handle.
\<close>

datatype FacebookRequest = StatusRequest fields

text \<open>\<^verbatim>\<open>batch_update_request\<close> (line 96); an attribute of \<open>None\<close> is an \<^verbatim>\<open>AttributeError\<close>.\<close>

definition batch_update_request :: "AsyncJob \<Rightarrow> error + FacebookRequest option" where
  "batch_update_request s =
     (if finish_time s \<noteq> None then Inr None
      else case job s of
        None \<Rightarrow> Inl AttributeError
      | Some h \<Rightarrow> Inr (Some (StatusRequest h)))"

text \<open>
  Modelled from the spec: \<^verbatim>\<open>ObjectParser(reuse_object=...).parse_single\<close> belongs to the
  SDK. The spec: the returned fields are merged into the existing remote handle, and
  fields not present in the response are retained from the prior snapshot. Each field of
  the response is stored into the prior mapping, as a Python item assignment does. With
  no prior handle there is no object to patch and the parser raises.
\<close>

definition parse_single :: "fields option \<Rightarrow> fields \<Rightarrow> error + fields" where
  "parse_single reuse_object response =
     (case reuse_object of
        None \<Rightarrow> Inl FacebookBadObjectError
      | Some h \<Rightarrow> Inr (fold (\<lambda>(k, v). AList.update k v) response h))"

text \<open>\<^verbatim>\<open>process_batch_result\<close> (line 102); the argument is \<^verbatim>\<open>response.json()\<close>.\<close>

definition process_batch_result :: "fields \<Rightarrow> int \<Rightarrow> AsyncJob \<Rightarrow> (error + unit) \<times> AsyncJob" where
  "process_batch_result response now s =
     (case parse_single (job s) response of
        Inl e \<Rightarrow> (Inl e, s)
      | Inr h \<Rightarrow>
          (case check_status now (s\<lparr>job := Some h\<rparr>) of
             (Inl e, s') \<Rightarrow> (Inl e, s')
           | (Inr _, s') \<Rightarrow> (Inr (), s')))"

text \<open>The body of \<^verbatim>\<open>get_result\<close> (line 140), one attempt.\<close>

definition get_result_body :: "API \<Rightarrow> AsyncJob \<Rightarrow> nat \<Rightarrow> string outcome" where
  "get_result_body api s n =
     (if job s = None \<or> failed s then (Inl (raise_usage NotStartedOrFailed s), s, n)
      else case job_get_result api n (the (job s)) of
        None \<Rightarrow> (Inl FacebookRequestError, s, Suc n)
      | Some r \<Rightarrow> (Inr r, s, Suc n))"

definition get_result :: "API \<Rightarrow> AsyncJob \<Rightarrow> nat \<Rightarrow> string outcome" where
  "get_result api = backoff_policy (get_result_body api)"

subsection \<open>Well-formed jobs, the status invariant, the public operations\<close>

text \<open>
  A job is printable when \<^verbatim>\<open>__str__\<close> returns: the parameters carry the time range and
  the breakdowns, which the spec requires of them, and the handle, when there is one,
  carries its run identifier.
\<close>

definition printable :: "AsyncJob \<Rightarrow> bool" where
  "printable s = (case str_AsyncJob s of Inl _ \<Rightarrow> False | Inr _ \<Rightarrow> True)"

definition terminal :: "string \<Rightarrow> bool" where
  "terminal st =
     (st \<in> set [status_value COMPLETED, status_value FAILED, status_value SKIPPED])"

definition failure_terminal :: "string \<Rightarrow> bool" where
  "failure_terminal st = (st \<in> set [status_value FAILED, status_value SKIPPED])"

text \<open>The two invariants of the spec's data model, on the status last observed.\<close>

definition status_inv :: "AsyncJob \<Rightarrow> bool" where
  "status_inv s =
     (((finish_time s \<noteq> None) = (case observed s of None \<Rightarrow> False | Some st \<Rightarrow> terminal st))
      \<and> (failed s = (case observed s of None \<Rightarrow> False | Some st \<Rightarrow> failure_terminal st)))"

datatype operation = Start | Restart | Completed | ProcessBatchResult fields | FetchResult

text \<open>The job and the call count that a public operation leaves, whatever it returned.\<close>

fun exec :: "API \<Rightarrow> int \<Rightarrow> operation \<Rightarrow> AsyncJob \<Rightarrow> nat \<Rightarrow> AsyncJob \<times> nat" where
  "exec api now Start s n = snd (start api now s n)"
| "exec api now Restart s n = snd (restart api now s n)"
| "exec api now Completed s n = snd (completed api now s n)"
| "exec api now (ProcessBatchResult response) s n = (snd (process_batch_result response now s), n)"
| "exec api now FetchResult s n = snd (get_result api s n)"

text \<open>
  The batch protocol: a response is processed only for a job that
  \<^verbatim>\<open>batch_update_request\<close> issued a request for, one whose finish time is not set.
\<close>

fun allowed :: "operation \<Rightarrow> AsyncJob \<Rightarrow> bool" where
  "allowed (ProcessBatchResult response) s = (finish_time s = None)"
| "allowed Start s = True"
| "allowed Restart s = True"
| "allowed Completed s = True"
| "allowed FetchResult s = True"

inductive reachable :: "API \<Rightarrow> AsyncJob \<Rightarrow> nat \<Rightarrow> bool" for api :: API where
  reachable_init: "reachable api (init p) 0"
| reachable_step:
    "reachable api s n \<Longrightarrow> allowed op s \<Longrightarrow> exec api now op s n = (s', n')
     \<Longrightarrow> reachable api s' n'"

subsection \<open>What the retry policy needs of a retried body\<close>

text \<open>
  An attempt that raises the transient error has made one remote call and has left the job
  as it found it, and no attempt makes more than one remote call.
\<close>

definition frame :: "(AsyncJob \<Rightarrow> nat \<Rightarrow> 'a outcome) \<Rightarrow> bool" where
  "frame f =
     (\<forall>s n. (fst (f s n) = Inl FacebookRequestError \<longrightarrow> snd (f s n) = (s, Suc n))
            \<and> snd (snd (f s n)) \<le> Suc n)"

subsection \<open>Concrete jobs and services\<close>

definition p0 :: fields where
  "p0 = [(''time_range'', ''2021-01-01''), (''breakdowns'', ''age'')]"

definition handle0 :: "string \<Rightarrow> string \<Rightarrow> fields" where
  "handle0 st pct =
     [(''report_run_id'', ''17''), (''async_status'', st), (''async_percent_completion'', pct)]"

definition response0 :: "string \<Rightarrow> string \<Rightarrow> fields" where
  "response0 st pct = [(''async_status'', st), (''async_percent_completion'', pct)]"

definition running0 :: AsyncJob where
  "running0 = \<lparr>params = p0, job = Some (handle0 ''Job Running'' ''50''), start_time = Some 3,
               finish_time = None, failed = False, observed = Some ''Job Running''\<rparr>"

definition completed0 :: AsyncJob where
  "completed0 = \<lparr>params = p0, job = Some (handle0 ''Job Completed'' ''100''),
                 start_time = Some 3, finish_time = Some 10, failed = False,
                 observed = Some ''Job Completed''\<rparr>"

definition failed0 :: AsyncJob where
  "failed0 = \<lparr>params = p0, job = Some (handle0 ''Job Failed'' ''0''), start_time = Some 3,
              finish_time = Some 10, failed = True, observed = Some ''Job Failed''\<rparr>"

text \<open>A service that answers every status request with the given status.\<close>

definition api_reporting :: "string \<Rightarrow> string \<Rightarrow> API" where
  "api_reporting st pct =
     \<lparr>get_insights = (\<lambda>n p. Some [(''report_run_id'', ''17'')]),
      api_get = (\<lambda>n h. Some (handle0 st pct)),
      job_get_result = (\<lambda>n h. Some ''rows'')\<rparr>"

text \<open>A service that fails every call with the transient error.\<close>

definition api_down :: API where
  "api_down = \<lparr>get_insights = (\<lambda>n p. None), api_get = (\<lambda>n h. None),
                job_get_result = (\<lambda>n h. None)\<rparr>"

section \<open>Auxiliary facts\<close>

lemma getitem_not_other: "getitem m k = Inl e \<Longrightarrow> e = KeyError"
  by (simp add: getitem_def split: option.splits)

lemma str_error: "str_AsyncJob s = Inl e \<Longrightarrow> e = KeyError"
  by (auto simp: str_AsyncJob_def getitem_def split: option.splits sum.splits)

lemma raise_usage_printable: "printable s \<Longrightarrow> raise_usage u s = RuntimeError u"
  by (simp add: printable_def raise_usage_def split: sum.splits)

lemma raise_usage_not_transient: "raise_usage u s \<noteq> FacebookRequestError"
  by (auto simp: raise_usage_def split: sum.splits dest: str_error)

lemma retry_no_transient: "fst (f s n) \<noteq> Inl FacebookRequestError \<Longrightarrow> retry k f s n = f s n"
  by (cases k) (simp_all add: Let_def)

lemma retry_is_attempt: "\<exists>s0 n0. retry k f s n = f s0 n0"
  by (induction k arbitrary: s n) (auto simp: Let_def)

lemma retry_preserves:
  assumes step: "\<And>s n. P s \<Longrightarrow> P (fst (snd (f s n)))"
  shows "P s \<Longrightarrow> P (fst (snd (retry k f s n)))"
  by (induction k arbitrary: s n) (auto simp: Let_def step)


lemma retry_exhausted: "frame f \<Longrightarrow> fst (retry k f s n) = Inl FacebookRequestError \<Longrightarrow> snd (retry k f s n) = (s, n + Suc k)"
proof (induction k arbitrary: s n)
  case 0 then show ?case by (simp add: frame_def)
next
  case (Suc k)
  show ?case
  proof (cases "fst (f s n) = Inl FacebookRequestError")
    case True
    with Suc.prems have st: "snd (f s n) = (s, Suc n)" by (simp add: frame_def)
    from True st Suc.prems(2) have "fst (retry k f s (Suc n)) = Inl FacebookRequestError"
      by (simp add: Let_def)
    from Suc.IH[OF Suc.prems(1) this] True st show ?thesis by (simp add: Let_def)
  next
    case False
    with Suc.prems(2) show ?thesis by (simp add: Let_def)
  qed
qed

lemma frame_start: "frame (start_body api now)"
  by (auto simp: frame_def start_body_def Let_def raise_usage_not_transient split: option.splits sum.splits dest: getitem_not_other)



lemma backoff_no_transient:
  "fst (f s n) \<noteq> Inl FacebookRequestError \<Longrightarrow> backoff_policy f s n = f s n"
  by (simp add: backoff_policy_def retry_no_transient)

lemma update_job_first_attempt:
  "job s = Some h \<Longrightarrow> api_get api n h = Some h' \<Longrightarrow>
   update_job api s n = (Inr (), s\<lparr>job := Some h'\<rparr>, Suc n)"
  by (simp add: update_job_def backoff_no_transient update_job_body_def)

lemma check_status_job: "job (snd (check_status now s)) = job s"
  by (simp add: check_status_def Let_def split: option.splits sum.splits)

lemma map_of_fold_update:
  "map_of (fold (\<lambda>(k, v). AList.update k v) r h) = map_of h ++ map_of (rev r)"
proof (induction r arbitrary: h)
  case Nil
  show ?case by simp
next
  case (Cons x r)
  obtain k v where x: "x = (k, v)" by (cases x)
  have "map_of (fold (\<lambda>(k, v). AList.update k v) (x # r) h)
          = map_of (AList.update k v h) ++ map_of (rev r)"
    using Cons.IH [of "AList.update k v h"] by (simp add: x)
  also have "\<dots> = (map_of h ++ map_of [(k, v)]) ++ map_of (rev r)"
    by (simp add: update_conv')
  also have "\<dots> = map_of h ++ map_of (rev (x # r))"
    by (simp add: x)
  finally show ?case .
qed

lemma start_body_not_usage:
  "job s = None \<Longrightarrow> fst (start_body api now s n) \<noteq> Inl (RuntimeError u)"
  by (auto simp: start_body_def Let_def split: option.splits sum.splits dest: getitem_not_other)

lemma retry_start_not_usage:
  "job s = None \<Longrightarrow> fst (retry k (start_body api now) s n) \<noteq> Inl (RuntimeError u)"
proof (induction k arbitrary: n)
  case 0
  then show ?case by (simp add: start_body_not_usage)
next
  case (Suc k)
  show ?case
  proof (cases "fst (start_body api now s n) = Inl FacebookRequestError")
    case True
    with frame_start [of api now] have "snd (start_body api now s n) = (s, Suc n)"
      by (simp add: frame_def)
    with True Suc.IH [OF Suc.prems, of "Suc n"] show ?thesis by (simp add: Let_def)
  next
    case False
    with Suc.prems show ?thesis by (simp add: Let_def start_body_not_usage)
  qed
qed

lemma start_body_success_printable:
  "fst (start_body api now s n) = Inr u \<Longrightarrow> printable (fst (snd (start_body api now s n)))"
  by (auto simp: start_body_def Let_def printable_def str_AsyncJob_def
      split: option.splits sum.splits if_splits)

lemma start_success_printable:
  assumes "start api now s n = (Inr u, s', n')"
  shows "printable s'"
proof -
  obtain s0 n0 where "start api now s n = start_body api now s0 n0"
    using retry_is_attempt [of "max_tries - 1" "start_body api now" s n]
    by (auto simp: start_def backoff_policy_def)
  with assms start_body_success_printable [of api now s0 n0 u] show ?thesis by simp
qed

lemma get_result_body_state: "fst (snd (get_result_body api s n)) = s"
  by (simp add: get_result_body_def split: option.splits)

lemma get_result_state: "fst (snd (get_result api s n)) = s"
  unfolding get_result_def backoff_policy_def
  using retry_preserves [where P = "\<lambda>t. t = s" and f = "get_result_body api" and s = s]
  by (simp add: get_result_body_state)

lemma get_result_body_not_usage:
  "job s \<noteq> None \<Longrightarrow> \<not> failed s \<Longrightarrow> fst (get_result_body api s n) \<noteq> Inl (RuntimeError u)"
  by (auto simp: get_result_body_def split: option.splits)

lemma get_result_not_usage:
  assumes "job s \<noteq> None" and "\<not> failed s"
  shows "fst (get_result api s n) \<noteq> Inl (RuntimeError u)"
proof -
  obtain s0 n0 where att: "get_result api s n = get_result_body api s0 n0"
    using retry_is_attempt [of "max_tries - 1" "get_result_body api" s n]
    by (auto simp: get_result_def backoff_policy_def)
  have "s0 = s"
    using get_result_state [of api s n] get_result_body_state [of api s0 n0] att by simp
  with att assms show ?thesis by (simp add: get_result_body_not_usage)
qed

lemma inv_running: "status_inv s \<Longrightarrow> finish_time s = None \<Longrightarrow> \<not> failed s"
  by (auto simp: status_inv_def terminal_def failure_terminal_def split: option.splits)

lemma check_status_inv:
  assumes "status_inv s" and "finish_time s = None"
  shows "status_inv (snd (check_status now s))"
proof -
  have nf: "\<not> failed s" using assms by (rule inv_running)
  show ?thesis
    using assms nf
    by (auto simp: check_status_def Let_def status_inv_def terminal_def failure_terminal_def
        split: option.splits sum.splits)
qed

lemma start_body_inv: "status_inv (fst (snd (start_body api now s n))) = status_inv s"
  by (auto simp: start_body_def Let_def status_inv_def split: option.splits sum.splits)

lemma start_inv: "status_inv s \<Longrightarrow> status_inv (fst (snd (start api now s n)))"
  unfolding start_def backoff_policy_def
  by (rule retry_preserves) (simp_all add: start_body_inv)

lemma update_job_body_keeps:
  "status_inv (fst (snd (update_job_body api s n))) = status_inv s"
  "finish_time (fst (snd (update_job_body api s n))) = finish_time s"
  by (auto simp: update_job_body_def status_inv_def split: option.splits)

lemma update_job_keeps:
  assumes "status_inv s" and "finish_time s = None"
  shows "status_inv (fst (snd (update_job api s n))) \<and> finish_time (fst (snd (update_job api s n))) = None"
  unfolding update_job_def backoff_policy_def
  using retry_preserves [where P = "\<lambda>t. status_inv t \<and> finish_time t = None"
          and f = "update_job_body api" and s = s and k = "max_tries - 1" and n = n] assms
  by (simp add: update_job_body_keeps)

lemma restart_inv: "status_inv s \<Longrightarrow> status_inv (fst (snd (restart api now s n)))"
proof -
  assume i: "status_inv s"
  have c: "status_inv (cleared s)" by (simp add: status_inv_def cleared_def)
  show ?thesis
    using i start_inv [OF c, of api now n]
    by (auto simp: restart_def split: prod.splits sum.splits)
qed

lemma completed_inv: "status_inv s \<Longrightarrow> status_inv (fst (snd (completed api now s n)))"
proof (cases "finish_time s = None")
  case False
  assume "status_inv s"
  with False show ?thesis by (simp add: completed_def)
next
  case True
  assume "status_inv s"
  from update_job_keeps [OF this True, of api n]
  have k: "status_inv (fst (snd (update_job api s n)))"
    "finish_time (fst (snd (update_job api s n))) = None" by simp_all
  show ?thesis
  proof (cases "update_job api s n")
    case (fields r s' n')
    with k have k': "status_inv s'" "finish_time s' = None" by simp_all
    show ?thesis
    proof (cases r)
      case (Inl e)
      with fields True k' show ?thesis by (simp add: completed_def)
    next
      case (Inr u)
      with fields True check_status_inv [OF k', of now] show ?thesis
        by (auto simp: completed_def split: prod.splits)
    qed
  qed
qed

lemma process_batch_result_inv:
  assumes "status_inv s" and "finish_time s = None"
  shows "status_inv (snd (process_batch_result response now s))"
proof (cases "parse_single (job s) response")
  case (Inl e)
  with assms show ?thesis by (simp add: process_batch_result_def)
next
  case (Inr h)
  have "status_inv (s\<lparr>job := Some h\<rparr>)" "finish_time (s\<lparr>job := Some h\<rparr>) = None"
    using assms by (simp_all add: status_inv_def)
  then have "status_inv (snd (check_status now (s\<lparr>job := Some h\<rparr>)))" by (rule check_status_inv)
  with Inr show ?thesis
    by (auto simp: process_batch_result_def split: prod.splits sum.splits)
qed

lemma exec_inv: "status_inv s \<Longrightarrow> allowed op s \<Longrightarrow> status_inv (fst (exec api now op s n))"
  by (cases op)
    (simp_all add: start_inv restart_inv completed_inv process_batch_result_inv get_result_state)

lemma reachable_inv: "reachable api s n \<Longrightarrow> status_inv s"
proof (induction rule: reachable.induct)
  case (reachable_init p)
  show ?case by (simp add: status_inv_def init_def)
next
  case (reachable_step s n op now s' n')
  from exec_inv [OF reachable_step.IH reachable_step.hyps(2), of api now n] reachable_step.hyps(3)
  show ?case by simp
qed

lemma check_status_same_status:
  assumes "getitem h_batch ''async_status'' = getitem h_direct ''async_status''"
    and "getitem h_batch ''async_percent_completion'' = Inr pb"
    and "getitem h_direct ''async_percent_completion'' = Inr pd"
    and "printable (s\<lparr>job := Some h_batch\<rparr>)" and "printable (s\<lparr>job := Some h_direct\<rparr>)"
  shows "check_status now (s\<lparr>job := Some h_batch\<rparr>)
           = (fst (check_status now (s\<lparr>job := Some h_direct\<rparr>)),
              (snd (check_status now (s\<lparr>job := Some h_direct\<rparr>)))\<lparr>job := Some h_batch\<rparr>)"
  using assms
  by (auto simp: check_status_def printable_def elapsed_time_def Let_def
      split: sum.splits option.splits)

lemma start_body_keeps:
  "failed (fst (snd (start_body api now s n))) = failed s"
  "finish_time (fst (snd (start_body api now s n))) = finish_time s"
  "params (fst (snd (start_body api now s n))) = params s"
  "observed (fst (snd (start_body api now s n))) = observed s"
  by (auto simp: start_body_def Let_def split: option.splits sum.splits)

lemma start_keeps:
  "failed (fst (snd (start api now s n))) = failed s
   \<and> finish_time (fst (snd (start api now s n))) = finish_time s
   \<and> params (fst (snd (start api now s n))) = params s
   \<and> observed (fst (snd (start api now s n))) = observed s"
  unfolding start_def backoff_policy_def
  using retry_preserves [where P = "\<lambda>t. failed t = failed s \<and> finish_time t = finish_time s
          \<and> params t = params s \<and> observed t = observed s"
          and f = "start_body api now" and s = s and k = "max_tries - 1" and n = n]
  by (simp add: start_body_keeps)

lemma start_body_success_started:
  "fst (start_body api now s n) = Inr u \<Longrightarrow>
   job (fst (snd (start_body api now s n))) \<noteq> None
   \<and> start_time (fst (snd (start_body api now s n))) = Some now"
  by (auto simp: start_body_def Let_def split: option.splits sum.splits if_splits)

lemma start_success_started:
  assumes "fst (start api now s n) = Inr u"
  shows "job (fst (snd (start api now s n))) \<noteq> None
       \<and> start_time (fst (snd (start api now s n))) = Some now"
proof -
  obtain s0 n0 where "start api now s n = start_body api now s0 n0"
    using retry_is_attempt [of "max_tries - 1" "start_body api now" s n]
    by (auto simp: start_def backoff_policy_def)
  with assms start_body_success_started [of api now s0 n0 u] show ?thesis by simp
qed

lemma start_first_attempt:
  assumes "job s = None" and "get_insights api n (params s) = Some h"
    and "getitem h ''report_run_id'' = Inr i"
    and "getitem (params s) ''time_range'' = Inr tr"
    and "getitem (params s) ''breakdowns'' = Inr bd"
  shows "start api now s n = (Inr (), s\<lparr>job := Some h, start_time := Some now\<rparr>, Suc n)"
  using assms by (simp add: start_def backoff_no_transient start_body_def)

lemma printable_params:
  "printable s \<Longrightarrow> \<exists>tr bd. getitem (params s) ''time_range'' = Inr tr
     \<and> getitem (params s) ''breakdowns'' = Inr bd"
  by (auto simp: printable_def str_AsyncJob_def split: sum.splits option.splits)

lemma start_exhausted:
  "fst (start api now s n) = Inl FacebookRequestError \<Longrightarrow>
   snd (start api now s n) = (s, n + max_tries)"
  using retry_exhausted [OF frame_start, of 4 api now s n]
  by (simp add: start_def backoff_policy_def max_tries_def)

section \<open>The claims\<close>

text \<open>
  C1. The transition rule of \<^verbatim>\<open>_check_status\<close>, on a job whose handle carries the
  percentage and the status and whose \<^verbatim>\<open>__str__\<close> returns. When the status read is
  Completed the finish time becomes the current time and the check returns true. When it
  is Failed or Skipped, on a job that has a start time, the finish time becomes the
  current time, the failure flag becomes true and the check returns true. On any other
  status the check returns false, and the finish time, the failure flag, the start time,
  the parameters and the handle are what they were. In each case only the history
  variable changes besides.
\<close>

theorem check_status_transition:
  assumes "job s = Some h"
    and "getitem h ''async_percent_completion'' = Inr pct"
    and "printable s"
    and "getitem h ''async_status'' = Inr st"
  shows "(st = status_value COMPLETED \<longrightarrow>
            check_status now s = (Inr True, s\<lparr>observed := Some st, finish_time := Some now\<rparr>))
       \<and> (st \<in> {status_value FAILED, status_value SKIPPED} \<and> start_time s \<noteq> None \<longrightarrow>
            check_status now s
              = (Inr True, s\<lparr>observed := Some st, finish_time := Some now, failed := True\<rparr>))
       \<and> (st \<notin> {status_value COMPLETED, status_value FAILED, status_value SKIPPED} \<longrightarrow>
            check_status now s = (Inr False, s\<lparr>observed := Some st\<rparr>))"
  using assms
  by (auto simp: check_status_def printable_def elapsed_time_def Let_def split: sum.splits option.splits)

theorem check_status_transition_witness:
  "check_status 9 (running0\<lparr>job := Some (handle0 ''Job Completed'' ''100'')\<rparr>)
     = (Inr True, running0\<lparr>job := Some (handle0 ''Job Completed'' ''100''),
                           observed := Some ''Job Completed'', finish_time := Some 9\<rparr>)
   \<and> check_status 9 (running0\<lparr>job := Some (handle0 ''Job Skipped'' ''0'')\<rparr>)
     = (Inr True, running0\<lparr>job := Some (handle0 ''Job Skipped'' ''0''),
                           observed := Some ''Job Skipped'', finish_time := Some 9, failed := True\<rparr>)
   \<and> check_status 9 running0 = (Inr False, running0)"
  using check_status_transition [of "running0\<lparr>job := Some (handle0 ''Job Completed'' ''100'')\<rparr>"
          "handle0 ''Job Completed'' ''100''" "''100''" "''Job Completed''" 9]
        check_status_transition [of "running0\<lparr>job := Some (handle0 ''Job Skipped'' ''0'')\<rparr>"
          "handle0 ''Job Skipped'' ''0''" "''0''" "''Job Skipped''" 9]
        check_status_transition [of running0 "handle0 ''Job Running'' ''50''" "''50''" "''Job Running''" 9]
  by (simp add: running0_def handle0_def p0_def getitem_def printable_def str_AsyncJob_def)

text \<open>
  C2. A job whose finish time is set: \<^verbatim>\<open>completed\<close> returns true at once, the job and the
  count of remote calls unchanged. A started job whose finish time is not set: when the
  service answers the status request, \<^verbatim>\<open>completed\<close> has made exactly one remote call, has
  stored the returned handle, and its result is the transition rule evaluated on the job
  with that handle. Through the retry policy in general: \<^verbatim>\<open>completed\<close> is one run of
  \<^verbatim>\<open>_update_job\<close>, followed by the transition rule on the job it left when it returned,
  and its error when it raised.
\<close>

theorem completed_memo_or_refresh:
  "(finish_time s \<noteq> None \<longrightarrow> completed api now s n = (Inr True, s, n))
   \<and> (finish_time s = None \<and> job s = Some h \<and> api_get api n h = Some h' \<longrightarrow>
        completed api now s n
          = (fst (check_status now (s\<lparr>job := Some h'\<rparr>)),
             snd (check_status now (s\<lparr>job := Some h'\<rparr>)), Suc n))
   \<and> (finish_time s = None \<and> update_job api s n = (Inr u, s', n') \<longrightarrow>
        completed api now s n = (fst (check_status now s'), snd (check_status now s'), n'))
   \<and> (finish_time s = None \<and> update_job api s n = (Inl e, s', n') \<longrightarrow>
        completed api now s n = (Inl e, s', n'))"
proof -
  have one: "update_job api s n = (Inr (), s\<lparr>job := Some h'\<rparr>, Suc n)"
    if "job s = Some h" "api_get api n h = Some h'"
    using that by (simp add: update_job_def backoff_no_transient update_job_body_def)
  show ?thesis
    by (auto simp: completed_def one split: prod.splits sum.splits)
qed

theorem completed_memo_or_refresh_witness:
  "completed (api_reporting ''Job Running'' ''60'') 9 completed0 4 = (Inr True, completed0, 4)
   \<and> completed (api_reporting ''Job Running'' ''60'') 9 running0 4
       = (Inr False, running0\<lparr>job := Some (handle0 ''Job Running'' ''60'')\<rparr>, 5)"
  using completed_memo_or_refresh [where s = completed0
          and api = "api_reporting ''Job Running'' ''60''" and now = 9 and n = 4]
        completed_memo_or_refresh [where s = running0 and h = "handle0 ''Job Running'' ''50''"
          and api = "api_reporting ''Job Running'' ''60''" and n = 4
          and h' = "handle0 ''Job Running'' ''60''" and now = 9]
  by (simp add: completed0_def running0_def api_reporting_def check_status_def handle0_def p0_def
      getitem_def str_AsyncJob_def)

text \<open>
  C3, as amended. On a started job whose finish time is not set, let the batch response,
  merged into the prior handle, and the direct refresh report the same status, both
  handles carrying the percentage and the run identifier. Then \<^verbatim>\<open>process_batch_result\<close>
  and \<^verbatim>\<open>completed\<close> leave the same finish time and the same failure flag, and the first
  raises exactly the error the second raises, if any. The handle is on each path the one
  that path obtained, the merged handle and the refreshed one; everything else in the two
  end states is the same, so they are identical exactly when the two handles are equal.
\<close>

theorem batch_matches_direct:
  assumes "job s = Some h" and "finish_time s = None"
    and "parse_single (Some h) response = Inr h_batch" and "api_get api n h = Some h_direct"
    and "getitem h_batch ''async_status'' = Inr st" and "getitem h_direct ''async_status'' = Inr st"
    and "getitem h_batch ''async_percent_completion'' = Inr pb"
    and "getitem h_direct ''async_percent_completion'' = Inr pd"
    and "printable (s\<lparr>job := Some h_batch\<rparr>)" and "printable (s\<lparr>job := Some h_direct\<rparr>)"
  shows "finish_time (snd (process_batch_result response now s))
           = finish_time (fst (snd (completed api now s n)))
       \<and> failed (snd (process_batch_result response now s))
           = failed (fst (snd (completed api now s n)))
       \<and> fst (process_batch_result response now s)
           = map_sum id (\<lambda>b. ()) (fst (completed api now s n))
       \<and> job (snd (process_batch_result response now s)) = Some h_batch
       \<and> job (fst (snd (completed api now s n))) = Some h_direct
       \<and> snd (process_batch_result response now s)
           = (fst (snd (completed api now s n)))\<lparr>job := Some h_batch\<rparr>
       \<and> ((snd (process_batch_result response now s) = fst (snd (completed api now s n)))
            = (h_batch = h_direct))"
proof -
  let ?d = "check_status now (s\<lparr>job := Some h_direct\<rparr>)"
  have c: "completed api now s n = (fst ?d, snd ?d, Suc n)"
    using assms(1,2,4)
    by (simp add: completed_def update_job_first_attempt split: prod.splits)
  have same: "check_status now (s\<lparr>job := Some h_batch\<rparr>) = (fst ?d, (snd ?d)\<lparr>job := Some h_batch\<rparr>)"
    using assms(5-10) by (intro check_status_same_status) simp_all
  have b: "process_batch_result response now s
             = (map_sum id (\<lambda>b. ()) (fst ?d), (snd ?d)\<lparr>job := Some h_batch\<rparr>)"
    using assms(1,3) same
    by (cases "fst ?d") (simp_all add: process_batch_result_def)
  have jd: "job (snd ?d) = Some h_direct" by (simp add: check_status_job)
  have eq: "((snd ?d)\<lparr>job := Some h_batch\<rparr> = snd ?d) = (h_batch = h_direct)"
  proof
    assume "(snd ?d)\<lparr>job := Some h_batch\<rparr> = snd ?d"
    then have "job ((snd ?d)\<lparr>job := Some h_batch\<rparr>) = job (snd ?d)" by simp
    with jd show "h_batch = h_direct" by simp
  next
    assume "h_batch = h_direct"
    with jd show "(snd ?d)\<lparr>job := Some h_batch\<rparr> = snd ?d" by simp
  qed
  show ?thesis using eq jd by (simp add: b c)
qed

theorem batch_matches_direct_witness:
  "snd (process_batch_result (response0 ''Job Failed'' ''0'') 9 running0)
     = failed0\<lparr>finish_time := Some 9\<rparr>
   \<and> fst (snd (completed (api_reporting ''Job Failed'' ''0'') 9 running0 4))
     = failed0\<lparr>finish_time := Some 9\<rparr>
   \<and> fst (snd (completed (api_reporting ''Job Failed'' ''7'') 9 running0 4))
     = failed0\<lparr>finish_time := Some 9, job := Some (handle0 ''Job Failed'' ''7'')\<rparr>
   \<and> fst (process_batch_result (response0 ''Job Failed'' ''0'') 9 running0) = Inr ()
   \<and> fst (completed (api_reporting ''Job Failed'' ''7'') 9 running0 4) = Inr True"
  using batch_matches_direct [where s = running0 and h = "handle0 ''Job Running'' ''50''"
          and response = "response0 ''Job Failed'' ''0''" and h_batch = "handle0 ''Job Failed'' ''0''"
          and h_direct = "handle0 ''Job Failed'' ''0''" and st = "''Job Failed''"
          and pb = "''0''" and pd = "''0''"
          and api = "api_reporting ''Job Failed'' ''0''" and n = 4 and now = 9]
        batch_matches_direct [where s = running0 and h = "handle0 ''Job Running'' ''50''"
          and response = "response0 ''Job Failed'' ''0''" and h_batch = "handle0 ''Job Failed'' ''0''"
          and h_direct = "handle0 ''Job Failed'' ''7''" and st = "''Job Failed''"
          and pb = "''0''" and pd = "''7''"
          and api = "api_reporting ''Job Failed'' ''7''" and n = 4 and now = 9]
  by (simp add: running0_def failed0_def parse_single_def response0_def handle0_def
      api_reporting_def process_batch_result_def check_status_def getitem_def
      str_AsyncJob_def p0_def elapsed_time_def printable_def completed_def update_job_def
      backoff_no_transient update_job_body_def)

text \<open>
  Both restrictions are needed. On a job that finished at time 10, with both paths
  reporting Completed at time 20, \<^verbatim>\<open>completed\<close> returns at line 92 and the finish time
  stays 10, while \<^verbatim>\<open>process_batch_result\<close> runs the transition rule again and stamps 20.
  On a running job, with both paths reporting Running, the direct refresh at 60 percent
  and the batch response at 50, the two handles differ.
\<close>

theorem batch_matches_direct_counterexample:
  "finish_time (fst (snd (completed (api_reporting ''Job Completed'' ''100'') 20 completed0 0)))
     = Some 10
   \<and> finish_time (snd (process_batch_result (response0 ''Job Completed'' ''100'') 20 completed0))
     = Some 20
   \<and> job (fst (snd (completed (api_reporting ''Job Running'' ''60'') 20 running0 0)))
     = Some (handle0 ''Job Running'' ''60'')
   \<and> job (snd (process_batch_result (response0 ''Job Running'' ''50'') 20 running0))
     = Some (handle0 ''Job Running'' ''50'')"
  by (simp add: completed_def completed0_def running0_def process_batch_result_def
      parse_single_def response0_def handle0_def check_status_def getitem_def str_AsyncJob_def
      p0_def api_reporting_def update_job_def backoff_no_transient update_job_body_def)

text \<open>
  C4. On a job whose \<^verbatim>\<open>__str__\<close> returns, \<^verbatim>\<open>restart\<close> raises a usage error exactly
  when the handle is \<open>None\<close> or the failure flag is false; it then raises the
  only-failed-jobs error, and the job and the count of remote calls are unchanged.
  Otherwise it is \<^verbatim>\<open>start\<close> run on the job with the handle, the failure flag and the two
  timestamps cleared. Whatever \<^verbatim>\<open>start\<close> then does, the failure flag is false, the
  finish time is not set and the parameters are kept. When it returns, there is a handle
  and the start time is the current time; when the service answers the first request
  with a handle that has a run identifier, the job is the old one with that handle, that
  start time, and the flag and the finish time cleared. When it ends with the transient
  error, the job is left cleared, with no handle and no start time.
\<close>

theorem restart_guard:
  assumes "printable s"
  shows "((\<exists>u. fst (restart api now s n) = Inl (RuntimeError u)) \<longleftrightarrow> (job s = None \<or> \<not> failed s))
       \<and> (job s = None \<or> \<not> failed s \<longrightarrow>
            restart api now s n = (Inl (RuntimeError OnlyFailedRestart), s, n))
       \<and> (job s \<noteq> None \<and> failed s \<longrightarrow>
            restart api now s n
              = start api now (s\<lparr>job := None, failed := False, start_time := None,
                                 finish_time := None, observed := None\<rparr>) n
            \<and> \<not> failed (fst (snd (restart api now s n)))
            \<and> finish_time (fst (snd (restart api now s n))) = None
            \<and> params (fst (snd (restart api now s n))) = params s)
       \<and> (job s \<noteq> None \<and> failed s \<and> fst (restart api now s n) = Inr () \<longrightarrow>
            job (fst (snd (restart api now s n))) \<noteq> None
            \<and> start_time (fst (snd (restart api now s n))) = Some now)
       \<and> (job s \<noteq> None \<and> failed s \<and> get_insights api n (params s) = Some h
            \<and> getitem h ''report_run_id'' = Inr i \<longrightarrow>
            restart api now s n
              = (Inr (), s\<lparr>job := Some h, failed := False, start_time := Some now,
                           finish_time := None, observed := None\<rparr>, Suc n))
       \<and> (job s \<noteq> None \<and> failed s \<and> fst (restart api now s n) = Inl FacebookRequestError \<longrightarrow>
            snd (restart api now s n)
              = (s\<lparr>job := None, failed := False, start_time := None, finish_time := None,
                   observed := None\<rparr>, n + max_tries))"
proof -
  let ?c = "s\<lparr>job := None, failed := False, start_time := None, finish_time := None,
              observed := None\<rparr>"
  have cl: "cleared s = ?c" by (simp add: cleared_def)
  have err: "restart api now s n = (Inl (RuntimeError OnlyFailedRestart), s, n)"
    if "job s = None \<or> \<not> failed s"
    using that assms by (auto simp: restart_def raise_usage_printable)
  have ok: "restart api now s n = start api now ?c n" if "job s \<noteq> None" "failed s"
  proof (cases "start api now (cleared s) n")
    case (fields r s' n')
    show ?thesis
    proof (cases r)
      case (Inl e)
      with fields that show ?thesis by (auto simp: restart_def cl)
    next
      case (Inr u)
      with fields have "printable s'" using start_success_printable by simp
      with fields Inr that show ?thesis
        by (simp add: restart_def printable_def cl split: sum.splits)
    qed
  qed
  have no: "fst (restart api now s n) \<noteq> Inl (RuntimeError u)" if "job s \<noteq> None" "failed s" for u
    using ok [OF that] retry_start_not_usage [of ?c "max_tries - 1" api now n u]
    by (simp add: start_def backoff_policy_def)
  have keeps: "\<not> failed (fst (snd (restart api now s n)))
      \<and> finish_time (fst (snd (restart api now s n))) = None
      \<and> params (fst (snd (restart api now s n))) = params s" if "job s \<noteq> None" "failed s"
    using ok [OF that] start_keeps [of api now ?c n] by simp
  have started: "job (fst (snd (restart api now s n))) \<noteq> None
      \<and> start_time (fst (snd (restart api now s n))) = Some now"
    if "job s \<noteq> None" "failed s" "fst (restart api now s n) = Inr ()"
    using ok [OF that(1,2)] that(3) start_success_started [of api now ?c n "()"] by simp
  have first: "restart api now s n
      = (Inr (), s\<lparr>job := Some h, failed := False, start_time := Some now,
                   finish_time := None, observed := None\<rparr>, Suc n)"
    if "job s \<noteq> None" "failed s" "get_insights api n (params s) = Some h"
      "getitem h ''report_run_id'' = Inr i"
  proof -
    obtain tr bd where "getitem (params s) ''time_range'' = Inr tr"
      "getitem (params s) ''breakdowns'' = Inr bd"
      using printable_params [OF assms] by blast
    then have "start api now ?c n = (Inr (), ?c\<lparr>job := Some h, start_time := Some now\<rparr>, Suc n)"
      using that(3,4) by (intro start_first_attempt) simp_all
    with ok [OF that(1,2)] show ?thesis by simp
  qed
  have exh: "snd (restart api now s n) = (?c, n + max_tries)"
    if "job s \<noteq> None" "failed s" "fst (restart api now s n) = Inl FacebookRequestError"
    using ok [OF that(1,2)] that(3) start_exhausted [of api now ?c n] by simp
  have iff: "(\<exists>u. fst (restart api now s n) = Inl (RuntimeError u)) \<longleftrightarrow> (job s = None \<or> \<not> failed s)"
    using err no by auto
  show ?thesis
    using iff err ok keeps started first exh by blast
qed

theorem restart_guard_witness:
  "restart (api_reporting ''Job Running'' ''0'') 30 running0 4
     = (Inl (RuntimeError OnlyFailedRestart), running0, 4)
   \<and> restart (api_reporting ''Job Running'' ''0'') 30 failed0 4
     = (Inr (), \<lparr>params = p0, job = Some [(''report_run_id'', ''17'')], start_time = Some 30,
                 finish_time = None, failed = False, observed = None\<rparr>, 5)
   \<and> restart api_down 30 failed0 4
     = (Inl FacebookRequestError,
        \<lparr>params = p0, job = None, start_time = None, finish_time = None, failed = False,
         observed = None\<rparr>, 9)"
proof -
  let ?A = "api_reporting ''Job Running'' ''0''"
  have p1: "printable running0"
    by (simp add: running0_def printable_def str_AsyncJob_def getitem_def handle0_def p0_def)
  have p2: "printable failed0"
    by (simp add: failed0_def printable_def str_AsyncJob_def getitem_def handle0_def p0_def)
  have r: "\<not> failed running0"
    by (simp add: running0_def)
  have a: "restart ?A 30 running0 4 = (Inl (RuntimeError OnlyFailedRestart), running0, 4)"
    using restart_guard [where s = running0 and api = ?A and now = 30 and n = 4, OF p1] r
    by blast
  have g: "get_insights ?A 4 (params failed0) = Some [(''report_run_id'', ''17'')]"
    by (simp add: api_reporting_def)
  have i: "getitem [(''report_run_id'', ''17'')] ''report_run_id'' = Inr ''17''"
    by (simp add: getitem_def)
  have f: "job failed0 \<noteq> None \<and> failed failed0"
    by (simp add: failed0_def)
  have b: "restart ?A 30 failed0 4
             = (Inr (), failed0\<lparr>job := Some [(''report_run_id'', ''17'')], failed := False,
                          start_time := Some 30, finish_time := None, observed := None\<rparr>, Suc 4)"
    using restart_guard [where s = failed0 and api = ?A and now = 30 and n = 4
            and h = "[(''report_run_id'', ''17'')]" and i = "''17''", OF p2] g i f
    by blast
  have d: "fst (restart api_down 30 failed0 4) = Inl FacebookRequestError"
    by (simp add: restart_def failed0_def cleared_def start_def backoff_policy_def max_tries_def
        eval_nat_numeral Let_def start_body_def api_down_def)
  have c: "snd (restart api_down 30 failed0 4)
             = (failed0\<lparr>job := None, failed := False, start_time := None,
                  finish_time := None, observed := None\<rparr>, 4 + max_tries)"
    using restart_guard [where s = failed0 and api = api_down and now = 30 and n = 4, OF p2] d f
    by blast
  show ?thesis
    using a b c d by (simp add: failed0_def max_tries_def prod_eq_iff)
qed

text \<open>
  C5, as amended. \<^verbatim>\<open>batch_update_request\<close> returns \<open>None\<close> exactly when the finish time
  is set, and on a started job whose finish time is not set it returns the deferred
  status request bound to the job's handle.
\<close>

theorem batch_update_request_started:
  "(batch_update_request s = Inr None \<longleftrightarrow> finish_time s \<noteq> None)
   \<and> (finish_time s = None \<and> job s = Some h \<longrightarrow>
        batch_update_request s = Inr (Some (StatusRequest h)))"
  by (auto simp: batch_update_request_def split: option.splits)

theorem batch_update_request_started_witness:
  "batch_update_request completed0 = Inr None
   \<and> batch_update_request running0 = Inr (Some (StatusRequest (handle0 ''Job Running'' ''50'')))"
  using batch_update_request_started [where s = completed0]
        batch_update_request_started [where s = running0 and h = "handle0 ''Job Running'' ''50''"]
  by (simp add: completed0_def running0_def)

text \<open>
  The restriction to a started job is needed. A job that was never started has no finish
  time, and line 100 asks \<open>None\<close> for an attribute: the call raises and returns no
  request.
\<close>

theorem batch_update_request_counterexample:
  "finish_time (init p0) = None \<and> batch_update_request (init p0) = Inl AttributeError"
  by (simp add: init_def batch_update_request_def)

text \<open>
  C6. On a job whose \<^verbatim>\<open>__str__\<close> returns, \<^verbatim>\<open>get_result\<close> raises a usage error exactly
  when the handle is \<open>None\<close> or the failure flag is true; it then makes no remote call
  and leaves the job unchanged. On a started job that did not fail, when the service
  answers, it returns the payload of the one remote call made. It never changes the job.
\<close>

theorem get_result_guard:
  assumes "printable s"
  shows "((\<exists>u. fst (get_result api s n) = Inl (RuntimeError u)) \<longleftrightarrow> (job s = None \<or> failed s))
       \<and> (job s = None \<or> failed s \<longrightarrow>
            get_result api s n = (Inl (RuntimeError NotStartedOrFailed), s, n))
       \<and> (job s = Some h \<and> \<not> failed s \<and> job_get_result api n h = Some r \<longrightarrow>
            get_result api s n = (Inr r, s, Suc n))
       \<and> fst (snd (get_result api s n)) = s"
proof -
  have err: "get_result api s n = (Inl (RuntimeError NotStartedOrFailed), s, n)"
    if "job s = None \<or> failed s"
    using that assms
    by (auto simp: get_result_def backoff_no_transient get_result_body_def raise_usage_printable)
  have ok: "get_result api s n = (Inr r, s, Suc n)"
    if "job s = Some h" "\<not> failed s" "job_get_result api n h = Some r"
    using that by (simp add: get_result_def backoff_no_transient get_result_body_def)
  have "(\<exists>u. fst (get_result api s n) = Inl (RuntimeError u)) \<longleftrightarrow> (job s = None \<or> failed s)"
  proof (cases "job s = None \<or> failed s")
    case True
    with err show ?thesis by simp
  next
    case False
    then have "fst (get_result api s n) \<noteq> Inl (RuntimeError u)" for u
      using get_result_not_usage [of s api n u] by blast
    with False show ?thesis by blast
  qed
  with err ok get_result_state [of api s n] show ?thesis by blast
qed

theorem get_result_guard_witness:
  "get_result (api_reporting ''Job Failed'' ''0'') failed0 4
     = (Inl (RuntimeError NotStartedOrFailed), failed0, 4)
   \<and> get_result (api_reporting ''Job Failed'' ''0'') (init p0) 4
     = (Inl (RuntimeError NotStartedOrFailed), init p0, 4)
   \<and> get_result (api_reporting ''Job Completed'' ''100'') completed0 4
     = (Inr ''rows'', completed0, 5)"
  using get_result_guard [where s = failed0 and api = "api_reporting ''Job Failed'' ''0''" and n = 4]
        get_result_guard [where s = "init p0" and api = "api_reporting ''Job Failed'' ''0''" and n = 4]
        get_result_guard [where s = completed0 and api = "api_reporting ''Job Completed'' ''100''"
          and n = 4 and h = "handle0 ''Job Completed'' ''100''" and r = "''rows''"]
  by (simp add: failed0_def completed0_def init_def printable_def str_AsyncJob_def getitem_def
      handle0_def p0_def api_reporting_def)

text \<open>
  C7, as amended. The invariant: the finish time is set if and only if the status last
  observed is terminal, and the failure flag is true if and only if that status is a
  failure terminal. It holds of the new job, every public operation preserves it, where
  \<^verbatim>\<open>process_batch_result\<close> is applied to a job whose finish time is not set, and so it
  holds in every state reached by such operations.
\<close>

theorem status_invariant:
  "(reachable api s n \<longrightarrow> status_inv s)
   \<and> (status_inv s \<and> allowed op s \<longrightarrow> status_inv (fst (exec api now op s n)))"
  using reachable_inv exec_inv by blast

theorem status_invariant_witness:
  "status_inv failed0
   \<and> status_inv (fst (exec (api_reporting ''Job Failed'' ''0'') 20 Restart failed0 2))
   \<and> status_inv (fst (exec (api_reporting ''Job Failed'' ''0'') 20
            (ProcessBatchResult (response0 ''Job Failed'' ''0'')) running0 2))"
proof -
  let ?A = "api_reporting ''Job Failed'' ''0''"
  have r0: "reachable ?A (init p0) 0" by (rule reachable_init)
  have s1: "exec ?A 3 Start (init p0) 0
              = ((init p0)\<lparr>job := Some [(''report_run_id'', ''17'')], start_time := Some 3\<rparr>, 1)"
    by (simp add: start_def backoff_no_transient start_body_def init_def p0_def
        api_reporting_def getitem_def)
  have s2: "exec ?A 10 Completed ((init p0)\<lparr>job := Some [(''report_run_id'', ''17'')], start_time := Some 3\<rparr>) 1
              = (failed0, 2)"
    by (simp add: completed_def update_job_def backoff_no_transient update_job_body_def init_def
        p0_def api_reporting_def check_status_def getitem_def handle0_def str_AsyncJob_def
        elapsed_time_def failed0_def)
  have r1: "reachable ?A ((init p0)\<lparr>job := Some [(''report_run_id'', ''17'')], start_time := Some 3\<rparr>) 1"
    by (rule reachable_step [OF r0 _ s1]) simp
  have r2: "reachable ?A failed0 2"
    by (rule reachable_step [OF r1 _ s2]) simp
  have i: "status_inv failed0"
    using status_invariant [of ?A failed0 2] r2 by blast
  have j: "status_inv running0" by (simp add: running0_def status_inv_def terminal_def failure_terminal_def)
  have a: "allowed (ProcessBatchResult (response0 ''Job Failed'' ''0'')) running0"
    by (simp add: running0_def)
  show ?thesis
    using i j a status_invariant [of ?A failed0 2 Restart 20]
      status_invariant [of ?A running0 2 "ProcessBatchResult (response0 ''Job Failed'' ''0'')" 20]
    by simp
qed

text \<open>
  The restriction on \<^verbatim>\<open>process_batch_result\<close> is needed. A job is started at time 3 and
  observed as Failed at time 10. A batch response reporting Running, processed at time
  20, makes Running the status last observed; the transition rule returns false and
  resets nothing, so the finish time stays set and the failure flag stays true.
\<close>

theorem status_invariant_counterexample:
  "exec (api_reporting ''Job Failed'' ''0'') 10 Completed
     (fst (exec (api_reporting ''Job Failed'' ''0'') 3 Start (init p0) 0)) 1 = (failed0, 2)
   \<and> status_inv failed0
   \<and> \<not> status_inv (fst (exec (api_reporting ''Job Failed'' ''0'') 20
              (ProcessBatchResult (response0 ''Job Running'' ''50'')) failed0 2))"
proof -
  let ?A = "api_reporting ''Job Failed'' ''0''"
  have s1: "start ?A 3 (init p0) 0
              = (Inr (), (init p0)\<lparr>job := Some [(''report_run_id'', ''17'')], start_time := Some 3\<rparr>, 1)"
    by (simp add: start_def backoff_no_transient start_body_def init_def p0_def
        api_reporting_def getitem_def)
  have s2: "completed ?A 10 ((init p0)\<lparr>job := Some [(''report_run_id'', ''17'')], start_time := Some 3\<rparr>) 1
              = (Inr True, failed0, 2)"
    by (simp add: completed_def update_job_def backoff_no_transient update_job_body_def init_def
        p0_def api_reporting_def check_status_def getitem_def handle0_def str_AsyncJob_def
        elapsed_time_def failed0_def)
  have s3: "\<not> status_inv (snd (process_batch_result (response0 ''Job Running'' ''50'') 20 failed0))"
    by (simp add: process_batch_result_def parse_single_def response0_def failed0_def handle0_def
        check_status_def getitem_def str_AsyncJob_def p0_def status_inv_def terminal_def)
  have s4: "status_inv failed0"
    by (simp add: failed0_def status_inv_def terminal_def failure_terminal_def)
  show ?thesis using s1 s2 s3 s4 by simp
qed

text \<open>
  C8, as amended. The direct refresh replaces the handle by the handle the status request
  returned. The batch path stores the fields of the response into the prior handle: a
  field of the response overwrites, a field absent from the response is retained.
\<close>

theorem handle_update:
  "(job s = Some h \<and> api_get api n h = Some h' \<longrightarrow>
      update_job api s n = (Inr (), s\<lparr>job := Some h'\<rparr>, Suc n))
   \<and> (job s = Some h \<longrightarrow>
        job (snd (process_batch_result response now s))
          = Some (fold (\<lambda>(k, v). AList.update k v) response h)
        \<and> map_of (fold (\<lambda>(k, v). AList.update k v) response h)
          = map_of h ++ map_of (rev response))"
proof -
  have "job (snd (process_batch_result response now s))
          = Some (fold (\<lambda>(k, v). AList.update k v) response h)" if "job s = Some h"
  proof -
    let ?s = "s\<lparr>job := Some (fold (\<lambda>(k, v). AList.update k v) response h)\<rparr>"
    have "snd (process_batch_result response now s) = snd (check_status now ?s)"
      using that by (simp add: process_batch_result_def parse_single_def split: prod.splits sum.splits)
    then show ?thesis by (simp add: check_status_job)
  qed
  then show ?thesis
    by (simp add: update_job_first_attempt map_of_fold_update)
qed

theorem handle_update_witness:
  "update_job (api_reporting ''Job Running'' ''60'') running0 4
     = (Inr (), running0\<lparr>job := Some (handle0 ''Job Running'' ''60'')\<rparr>, 5)
   \<and> job (snd (process_batch_result (response0 ''Job Running'' ''60'') 9 running0))
     = Some (handle0 ''Job Running'' ''60'')"
  using handle_update [where s = running0 and h = "handle0 ''Job Running'' ''50''"
          and api = "api_reporting ''Job Running'' ''60''" and n = 4
          and h' = "handle0 ''Job Running'' ''60''" and response = "response0 ''Job Running'' ''60''"
          and now = 9]
  by (simp add: running0_def api_reporting_def handle0_def response0_def)

text \<open>
  The batch path does not replace the handle by the snapshot in the response. A response
  with the status and the percentage only leaves a handle that still has the run
  identifier of the prior one.
\<close>

theorem handle_replaced_counterexample:
  "job (snd (process_batch_result (response0 ''Job Completed'' ''100'') 9 running0))
     = Some (handle0 ''Job Completed'' ''100'')
   \<and> job (snd (process_batch_result (response0 ''Job Completed'' ''100'') 9 running0))
     \<noteq> Some (response0 ''Job Completed'' ''100'')"
  by (simp add: process_batch_result_def parse_single_def check_status_def getitem_def
      str_AsyncJob_def p0_def running0_def response0_def handle0_def)



text \<open>
  C10. On a job that was never started (no handle, no finish time) and whose
  \<^verbatim>\<open>__str__\<close> returns, \<^verbatim>\<open>completed\<close> does not return: it raises the not-started usage
  error, with no remote call and the job unchanged.
\<close>

theorem never_started_completed_raises:
  assumes "job s = None" and "finish_time s = None" and "printable s"
  shows "completed api now s n = (Inl (RuntimeError NotStarted), s, n)"
  using assms
  by (simp add: completed_def update_job_def backoff_no_transient update_job_body_def
      raise_usage_printable)

theorem never_started_completed_raises_witness:
  "completed api_down 9 (init p0) 0 = (Inl (RuntimeError NotStarted), init p0, 0)"
  using never_started_completed_raises [of "init p0" api_down 9 0]
  by (simp add: init_def p0_def printable_def str_AsyncJob_def getitem_def)

end
